theory Spec2Isabelle
  imports Main
begin

section \<open>Values of a parsed JSON body\<close>

text \<open>
  An operation that can throw either returns a value or throws an error with a
  message.
\<close>

datatype 'a outcome = Throws string | Returns 'a

text \<open>
  The fields of \<^verbatim>\<open>req.body\<close> are whatever \<^verbatim>\<open>JSON.parse\<close> produced, so a field is
  not necessarily a string. \<open>JUndefined\<close> is what reading an absent property gives.
  A number is given by the text JavaScript prints it as (\<^verbatim>\<open>Number::toString\<close>:
  \<^verbatim>\<open>1\<close>, \<^verbatim>\<open>1.5\<close>, \<^verbatim>\<open>1e+21\<close>); both zeros print as \<^verbatim>\<open>0\<close>, and a JSON text
  gives no \<^verbatim>\<open>NaN\<close>. An object is the list of its own properties.
\<close>

datatype jsval =
    JUndefined
  | JNull
  | JBool bool
  | JNum string
  | JStr string
  | JArr "jsval list"
  | JObj "(string \<times> jsval) list"

text \<open>JavaScript's \<^verbatim>\<open>ToBoolean\<close>: what \<^verbatim>\<open>!v\<close> negates.\<close>

fun truthy :: "jsval \<Rightarrow> bool" where
  "truthy JUndefined = False"
| "truthy JNull = False"
| "truthy (JBool b) = b"
| "truthy (JNum n) = (n \<noteq> ''0'')"
| "truthy (JStr s) = (s \<noteq> [])"
| "truthy (JArr xs) = True"
| "truthy (JObj kvs) = True"

fun join :: "string \<Rightarrow> string list \<Rightarrow> string" where
  "join sep [] = []"
| "join sep [s] = s"
| "join sep (s # t # ss) = s @ sep @ join sep (t # ss)"

text \<open>V8's message when an object has no method that turns it into a primitive.\<close>

definition type_error :: string where
  "type_error = ''Cannot convert object to primitive value''"

text \<open>
  JavaScript's \<^verbatim>\<open>ToString\<close>, which a property access \<^verbatim>\<open>obj[v]\<close> applies to its key
  and an assignment to \<^verbatim>\<open>input.value\<close> to its right-hand side. An array is its
  elements joined by commas, \<^verbatim>\<open>null\<close> and \<^verbatim>\<open>undefined\<close> elements giving the empty
  string. An object is printed by its \<^verbatim>\<open>toString\<close> method: the inherited one gives
  \<^verbatim>\<open>[object Object]\<close>; an own property of that name, which in a parsed JSON text is
  never a function, hides it, and the conversion throws a \<^verbatim>\<open>TypeError\<close> (the
  inherited \<^verbatim>\<open>valueOf\<close> returns the object itself, and an own one is no function
  either).
\<close>

fun to_string :: "jsval \<Rightarrow> string outcome"
  and to_strings :: "jsval list \<Rightarrow> string list outcome" where
  "to_string JUndefined = Returns ''undefined''"
| "to_string JNull = Returns ''null''"
| "to_string (JBool b) = Returns (if b then ''true'' else ''false'')"
| "to_string (JNum n) = Returns n"
| "to_string (JStr s) = Returns s"
| "to_string (JArr xs) =
     (case to_strings xs of Throws e \<Rightarrow> Throws e | Returns ss \<Rightarrow> Returns (join '','' ss))"
| "to_string (JObj kvs) =
     (if ''toString'' \<in> set (map fst kvs) then Throws type_error
      else Returns ''[object Object]'')"
| "to_strings [] = Returns []"
| "to_strings (v # vs) =
     (case (if v = JUndefined \<or> v = JNull then Returns [] else to_string v) of
        Throws e \<Rightarrow> Throws e
      | Returns s \<Rightarrow>
         (case to_strings vs of Throws e \<Rightarrow> Throws e | Returns ss \<Rightarrow> Returns (s # ss)))"

section \<open>getUrls\<close>

record urls =
  form :: string
  action :: string

text \<open>
  What \<^verbatim>\<open>pages[year]\<close> can evaluate to. \<^verbatim>\<open>pages\<close> is an object literal, so a key
  that is not one of its own five is looked up in \<^verbatim>\<open>Object.prototype\<close>: the
  built-in methods are functions, \<^verbatim>\<open>__proto__\<close> is the prototype object itself.
\<close>

datatype member =
    PUndefined
  | PString string
  | PFunction string
  | PPrototype

definition pages :: "(string \<times> string) list" where
  "pages =
    [(''1'', ''first_year_result''),
     (''2'', ''second_year_result''),
     (''3'', ''third_year_result''),
     (''4'', ''fourth_year_result''),
     (''consolidated'', ''final_year_result'')]"

text \<open>The properties every object literal inherits (ECMAScript, with Annex B), each
  function with the name it prints under.\<close>

definition object_prototype :: "(string \<times> member) list" where
  "object_prototype =
    [(''constructor'', PFunction ''Object''),
     (''__defineGetter__'', PFunction ''__defineGetter__''),
     (''__defineSetter__'', PFunction ''__defineSetter__''),
     (''hasOwnProperty'', PFunction ''hasOwnProperty''),
     (''__lookupGetter__'', PFunction ''__lookupGetter__''),
     (''__lookupSetter__'', PFunction ''__lookupSetter__''),
     (''isPrototypeOf'', PFunction ''isPrototypeOf''),
     (''propertyIsEnumerable'', PFunction ''propertyIsEnumerable''),
     (''toString'', PFunction ''toString''),
     (''valueOf'', PFunction ''valueOf''),
     (''__proto__'', PPrototype),
     (''toLocaleString'', PFunction ''toLocaleString'')]"

text \<open>\<^verbatim>\<open>pages[year]\<close>: the year is turned into a property key first, which throws
  when the year has no string form.\<close>

definition pages_get :: "jsval \<Rightarrow> member outcome" where
  "pages_get year =
    (case to_string year of
       Throws e \<Rightarrow> Throws e
     | Returns key \<Rightarrow>
        (case map_of pages key of
           Some s \<Rightarrow> Returns (PString s)
         | None \<Rightarrow>
            (case map_of object_prototype key of
               Some p \<Rightarrow> Returns p
             | None \<Rightarrow> Returns PUndefined)))"

fun prop_truthy :: "member \<Rightarrow> bool" where
  "prop_truthy PUndefined = False"
| "prop_truthy (PString s) = (s \<noteq> [])"
| "prop_truthy (PFunction f) = True"
| "prop_truthy PPrototype = True"

text \<open>How a template literal prints the value (V8's text for a built-in function).\<close>

fun prop_string :: "member \<Rightarrow> string" where
  "prop_string PUndefined = ''undefined''"
| "prop_string (PString s) = s"
| "prop_string (PFunction f) = ''function '' @ f @ ''() { [native code] }''"
| "prop_string PPrototype = ''[object Object]''"

definition base :: string where
  "base = ''http://results.nu.ac.bd''"

text \<open>\<^verbatim>\<open>exam === 'honours'\<close> is strict: only the string itself passes, and for any
  other exam the year is not looked at. \<open>Returns None\<close> is the \<^verbatim>\<open>null\<close> the function
  returns; \<open>Throws\<close> is the error of the property access.\<close>

definition getUrls :: "jsval \<Rightarrow> jsval \<Rightarrow> urls option outcome" where
  "getUrls exam year =
    (if exam = JStr ''honours'' then
       (case pages_get year of
          Throws e \<Rightarrow> Throws e
        | Returns page \<Rightarrow>
            if \<not> prop_truthy page then Returns None
            else Returns (Some
              \<lparr>form = base @ ''/honours/'' @ prop_string page @ ''.php'',
               action = base @ ''/honours/'' @ prop_string page @ ''_show.php''\<rparr>))
     else Returns None)"

section \<open>The browser library and the response object\<close>

text \<open>What the in-page script of step 3 sends: \<^verbatim>\<open>fetch(form.action, {method, body})\<close>
  with the form's inputs in insertion order.\<close>

record submission =
  target :: string
  verb :: string
  inputs :: "(string \<times> string) list"

text \<open>The calls a request makes on the browser library, in the order made. The call
  of \<^verbatim>\<open>page.evaluate\<close> for step 3 is \<open>SubmitForm s\<close> when its script gets to post
  \<open>s\<close>, and \<open>FormAborted\<close> when the script throws while it builds the form.
  \<open>CloseContext\<close> is \<^verbatim>\<open>context.close()\<close>, the call that releases a browser context.\<close>

datatype event =
    NewContext
  | NewPage
  | SetUserAgent string
  | Goto string
  | EvaluateTokens
  | SubmitForm submission
  | FormAborted
  | ClosePage
  | CloseContext

text \<open>
  The world one request runs in: whether the module variable \<^verbatim>\<open>browser\<close> holds a
  launched browser, and how each library call ends. \<open>document\<close> gives, for the page
  loaded from a URL, the value of the first \<^verbatim>\<open>input\<close> element with a given name
  (\<open>None\<close> when \<^verbatim>\<open>querySelector\<close> finds none); \<open>remote\<close> is the text the remote
  endpoint answers a submission with; \<open>pageError\<close> is the message of the error that
  \<^verbatim>\<open>page.evaluate\<close> throws when the script threw one with the given message;
  \<open>pageClose n\<close> is how the call of \<^verbatim>\<open>page.close()\<close> that follows \<open>n\<close> earlier
  ones ends. \<open>fresh\<close> is Express's \<^verbatim>\<open>req.fresh\<close> at the time a \<^verbatim>\<open>GET\<close> or
  \<^verbatim>\<open>HEAD\<close> is answered: whether the request's cache validators match the response
  (for any other method it is false whatever the headers).
\<close>

record world =
  browser :: bool
  newContext :: "unit outcome"
  newPage :: "unit outcome"
  setUserAgent :: "unit outcome"
  goto :: "string \<Rightarrow> unit outcome"
  document :: "string \<Rightarrow> (string \<Rightarrow> string option) outcome"
  remote :: "submission \<Rightarrow> string outcome"
  pageError :: "string \<Rightarrow> string"
  pageClose :: "nat \<Rightarrow> unit outcome"
  fresh :: bool

text \<open>The response object as the application's code and \<^verbatim>\<open>res.send\<close> leave it: the
  status, the headers set, and the body passed to \<^verbatim>\<open>send\<close> (\<open>None\<close> after
  \<^verbatim>\<open>end()\<close>). Of the headers Express sets itself only \<^verbatim>\<open>Content-Type\<close> is
  recorded (not \<^verbatim>\<open>Content-Length\<close>, \<^verbatim>\<open>ETag\<close> or \<^verbatim>\<open>X-Powered-By\<close>).\<close>

record res =
  statusCode :: nat
  headers :: "string \<rightharpoonup> string"
  content :: "string option"

definition res0 :: res where
  "res0 = \<lparr>statusCode = 200, headers = Map.empty, content = None\<rparr>"

definition header :: "string \<Rightarrow> string \<Rightarrow> res \<Rightarrow> res" where
  "header k v r = r\<lparr>headers := (headers r)(k \<mapsto> v)\<rparr>"

definition status :: "nat \<Rightarrow> res \<Rightarrow> res" where
  "status n r = r\<lparr>statusCode := n\<rparr>"

text \<open>
  \<^verbatim>\<open>res.send\<close> with a string body. Express gives the response the type
  \<^verbatim>\<open>text/html; charset=utf-8\<close> when no \<^verbatim>\<open>Content-Type\<close> is set, and adds the
  charset to the one that is set (written here for a type without parameters, the only
  kind the application sets).
\<close>

definition send :: "string \<Rightarrow> res \<Rightarrow> res" where
  "send b r =
    r\<lparr>headers := (headers r)(''Content-Type'' \<mapsto>
         (case headers r ''Content-Type'' of
            None \<Rightarrow> ''text/html; charset=utf-8''
          | Some t \<Rightarrow> t @ ''; charset=utf-8'')),
      content := Some b\<rparr>"

text \<open>
  \<^verbatim>\<open>res.send\<close> in answer to a \<^verbatim>\<open>GET\<close> or \<^verbatim>\<open>HEAD\<close>: when the request is fresh
  the status becomes 304, the \<^verbatim>\<open>Content-Type\<close> is removed and the body is empty.
\<close>

definition send_get :: "world \<Rightarrow> string \<Rightarrow> res \<Rightarrow> res" where
  "send_get w b r =
    (if fresh w then
       (send b r)\<lparr>statusCode := 304,
                  headers := (headers (send b r))(''Content-Type'' := None),
                  content := Some []\<rparr>
     else send b r)"

text \<open>Who answered: the application's code (\<open>Sent\<close>), or Express's final handler with
  the given status, on the response object as the middleware run so far left it.\<close>

datatype reply = Sent res | Final nat res

fun reply_res :: "reply \<Rightarrow> res" where
  "reply_res (Sent r) = r"
| "reply_res (Final n r) = r"

fun reply_status :: "reply \<Rightarrow> nat" where
  "reply_status (Sent r) = statusCode r"
| "reply_status (Final n r) = n"

text \<open>A handled request: the reply, the library calls made, and the error the
  handler's promise rejects with, if any, after the reply.\<close>

record result =
  reply :: reply
  trace :: "event list"
  rejected :: "string option"

section \<open>POST /fetch\<close>

record tokens =
  csrf_token :: "string option"
  letters_code :: "string option"

text \<open>\<^verbatim>\<open>!tokens.csrf_token\<close>: \<^verbatim>\<open>null\<close> and the empty string are falsy.\<close>

fun token_falsy :: "string option \<Rightarrow> bool" where
  "token_falsy None = True"
| "token_falsy (Some s) = (s = [])"

text \<open>The string an \<^verbatim>\<open>input\<close> element holds after \<^verbatim>\<open>input.value = v\<close>:
  \<^verbatim>\<open>null\<close> becomes the empty string, anything else its \<^verbatim>\<open>ToString\<close>, and the
  assignment throws when that conversion does.\<close>

fun input_value :: "jsval \<Rightarrow> string outcome" where
  "input_value JNull = Returns []"
| "input_value v = to_string v"

text \<open>The same for a token, which is a string or \<^verbatim>\<open>null\<close>.\<close>

definition token_value :: "string option \<Rightarrow> string" where
  "token_value t = (case t of None \<Rightarrow> [] | Some s \<Rightarrow> s)"

definition user_agent :: string where
  "user_agent = ''Mozilla/5.0 (Windows NT 10.0; Win64; x64) AppleWebKit/537.36''"

text \<open>The bytes of U+274C, U+1F6A8 and U+1F393 in UTF-8.\<close>

definition cross_mark :: string where
  "cross_mark = [CHR 0xE2, CHR 0x9D, CHR 0x8C]"

definition police_light :: string where
  "police_light = [CHR 0xF0, CHR 0x9F, CHR 0x9A, CHR 0xA8]"

definition graduation_cap :: string where
  "graduation_cap = [CHR 0xF0, CHR 0x9F, CHR 0x8E, CHR 0x93]"

definition proxy_error :: "string \<Rightarrow> string" where
  "proxy_error msg = ''<h3>'' @ police_light @ '' Proxy Error</h3><p>'' @ msg @ ''</p>''"

text \<open>V8's message when \<^verbatim>\<open>req.body\<close> is \<^verbatim>\<open>undefined\<close> at the destructuring.\<close>

definition destructure_error :: string where
  "destructure_error = ''Cannot destructure property 'exam' of 'req.body' as it is undefined.''"

definition field :: "(string \<rightharpoonup> jsval) \<Rightarrow> string \<Rightarrow> jsval" where
  "field obj k = (case obj k of None \<Rightarrow> JUndefined | Some v \<Rightarrow> v)"

text \<open>
  What reading \<^verbatim>\<open>form.action\<close> gives after \<^verbatim>\<open>form.action = url\<close>: the URL as the
  page's URL parser writes it. Of the characters a URL from \<open>getUrls\<close> can hold, the
  space and the two braces are the ones the parser percent-encodes in a path; a URL
  built from a row of the table is returned as it is.
\<close>

definition encode_char :: "char \<Rightarrow> string" where
  "encode_char c =
    (if c = CHR '' '' then ''%20''
     else if c = CHR ''{'' then ''%7B''
     else if c = CHR ''}'' then ''%7D''
     else [c])"

definition form_action :: "string \<Rightarrow> string" where
  "form_action url = concat (map encode_char url)"

text \<open>Step 3: the form the in-page script builds and posts. The loop over
  \<^verbatim>\<open>Object.entries(inputs)\<close> appends one hidden input per entry, in the order of the
  object literal, and \<^verbatim>\<open>FormData\<close> carries exactly those. The script throws, before
  anything is posted, at the first field that has no string form.\<close>

definition build_form ::
  "urls \<Rightarrow> jsval \<Rightarrow> jsval \<Rightarrow> jsval \<Rightarrow> tokens \<Rightarrow> submission outcome" where
  "build_form u roll reg examYear t =
    (case input_value roll of
       Throws e \<Rightarrow> Throws e
     | Returns roll_number \<Rightarrow>
    (case input_value reg of
       Throws e \<Rightarrow> Throws e
     | Returns reg_no \<Rightarrow>
    (case input_value examYear of
       Throws e \<Rightarrow> Throws e
     | Returns exam_year \<Rightarrow>
        Returns
          \<lparr>target = form_action (action u), verb = ''POST'',
           inputs =
             [(''roll_number'', roll_number),
              (''reg_no'', reg_no),
              (''exam_year'', exam_year),
              (''csrf_token'', token_value (csrf_token t)),
              (''letters_code'', token_value (letters_code t))]\<rparr>)))"

text \<open>
  The \<^verbatim>\<open>try\<close> block from \<^verbatim>\<open>browser.newContext()\<close> on. It ends with \<open>Inl msg\<close> when
  a call throws and with \<open>Inr r\<close> when a response was sent; the boolean says whether
  the variable \<^verbatim>\<open>page\<close> was assigned.
\<close>

definition session ::
  "world \<Rightarrow> urls \<Rightarrow> jsval \<Rightarrow> jsval \<Rightarrow> jsval \<Rightarrow> res \<Rightarrow> (string + res) \<times> bool \<times> event list" where
  "session w u roll reg examYear r =
    (case newContext w of
       Throws e \<Rightarrow> (Inl e, False, [NewContext])
     | Returns _ \<Rightarrow>
    (case newPage w of
       Throws e \<Rightarrow> (Inl e, False, [NewContext, NewPage])
     | Returns _ \<Rightarrow>
    (case setUserAgent w of
       Throws e \<Rightarrow> (Inl e, True, [NewContext, NewPage, SetUserAgent user_agent])
     | Returns _ \<Rightarrow>
    (case goto w (form u) of
       Throws e \<Rightarrow>
         (Inl e, True, [NewContext, NewPage, SetUserAgent user_agent, Goto (form u)])
     | Returns _ \<Rightarrow>
    (case document w (form u) of
       Throws e \<Rightarrow>
         (Inl e, True,
          [NewContext, NewPage, SetUserAgent user_agent, Goto (form u), EvaluateTokens])
     | Returns doc \<Rightarrow>
        (let t = \<lparr>csrf_token = doc ''csrf_token'', letters_code = doc ''letters_code''\<rparr> in
         if token_falsy (csrf_token t) \<or> token_falsy (letters_code t) then
           (case pageClose w 0 of
              Throws e \<Rightarrow>
                (Inl e, True,
                 [NewContext, NewPage, SetUserAgent user_agent, Goto (form u),
                  EvaluateTokens, ClosePage])
            | Returns _ \<Rightarrow>
                (Inr (send (cross_mark @ '' Failed to extract security tokens'')
                        (status 500 r)), True,
                 [NewContext, NewPage, SetUserAgent user_agent, Goto (form u),
                  EvaluateTokens, ClosePage]))
         else
           (case build_form u roll reg examYear t of
              Throws e \<Rightarrow>
                (Inl (pageError w e), True,
                 [NewContext, NewPage, SetUserAgent user_agent, Goto (form u),
                  EvaluateTokens, FormAborted])
            | Returns s \<Rightarrow>
           (case remote w s of
              Throws e \<Rightarrow>
                (Inl e, True,
                 [NewContext, NewPage, SetUserAgent user_agent, Goto (form u),
                  EvaluateTokens, SubmitForm s])
            | Returns resultHtml \<Rightarrow>
                (Inr (send resultHtml (header ''Content-Type'' ''text/html'' r)), True,
                 [NewContext, NewPage, SetUserAgent user_agent, Goto (form u),
                  EvaluateTokens, SubmitForm s])))))))))"

text \<open>The \<^verbatim>\<open>try\<close> block: validation, URL lookup and the browser check, then the
  session. The body is \<open>None\<close> when \<^verbatim>\<open>req.body\<close> is \<^verbatim>\<open>undefined\<close>. An error thrown
  by \<open>getUrls\<close> leaves the block like any other.\<close>

definition missing :: "jsval \<Rightarrow> jsval \<Rightarrow> jsval \<Rightarrow> jsval \<Rightarrow> bool" where
  "missing exam year reg examYear =
    (\<not> truthy exam \<or> \<not> truthy year \<or> \<not> truthy reg \<or> \<not> truthy examYear)"

definition fetch_try ::
  "world \<Rightarrow> (string \<rightharpoonup> jsval) option \<Rightarrow> res \<Rightarrow> (string + res) \<times> bool \<times> event list" where
  "fetch_try w b r =
    (case b of
       None \<Rightarrow> (Inl destructure_error, False, [])
     | Some obj \<Rightarrow>
        (let exam = field obj ''exam''; year = field obj ''year''; roll = field obj ''roll'';
             reg = field obj ''reg''; examYear = field obj ''examYear'' in
         if missing exam year reg examYear then
           (Inr (send ''Missing required fields'' (status 400 r)), False, [])
         else
           (case getUrls exam year of
              Throws e \<Rightarrow> (Inl e, False, [])
            | Returns None \<Rightarrow>
                (Inr (send ''Invalid exam or year'' (status 400 r)), False, [])
            | Returns (Some u) \<Rightarrow>
               if \<not> browser w then
                 (Inr (send ''Browser not ready'' (status 500 r)), False, [])
               else session w u roll reg examYear r)))"

text \<open>The handler: the \<^verbatim>\<open>try\<close> block, the \<^verbatim>\<open>catch\<close> that answers 500 with the
  error's message, and the \<^verbatim>\<open>finally\<close> that closes the page if one was created.\<close>

definition closes :: "event list \<Rightarrow> nat" where
  "closes tr = length (filter (\<lambda>e. e = ClosePage) tr)"

definition fetch_handler :: "world \<Rightarrow> (string \<rightharpoonup> jsval) option \<Rightarrow> res \<Rightarrow> result" where
  "fetch_handler w b r =
    (case fetch_try w b r of
       (out, page, tr) \<Rightarrow>
        (let r' = (case out of
                     Inl msg \<Rightarrow> send (proxy_error msg) (status 500 r)
                   | Inr sent \<Rightarrow> sent) in
         if page then
           (case pageClose w (closes tr) of
              Throws e \<Rightarrow> \<lparr>reply = Sent r', trace = tr @ [ClosePage], rejected = Some e\<rparr>
            | Returns _ \<Rightarrow> \<lparr>reply = Sent r', trace = tr @ [ClosePage], rejected = None\<rparr>)
         else \<lparr>reply = Sent r', trace = tr, rejected = None\<rparr>))"

section \<open>The application\<close>

text \<open>
  What \<^verbatim>\<open>express.json()\<close>, the first middleware, made of the request: it either
  rejects it with an error of the given status (a body that is not valid JSON, too
  large, in an unsupported encoding), or lets it pass with \<^verbatim>\<open>req.body\<close> set to the
  parsed object, to the empty object when there was nothing to parse, or left
  \<^verbatim>\<open>undefined\<close> (\<open>None\<close>) by the versions of the parser that do so.
\<close>

datatype parse = Rejected nat | Passed "(string \<rightharpoonup> jsval) option"

record request =
  "method" :: string
  path :: string
  parsed :: parse

definition lower :: "char \<Rightarrow> char" where
  "lower c =
    (case map_of (zip ''ABCDEFGHIJKLMNOPQRSTUVWXYZ'' ''abcdefghijklmnopqrstuvwxyz'') c of
       None \<Rightarrow> c
     | Some l \<Rightarrow> l)"

text \<open>Express's default matching of a literal route path: letter case is ignored and
  one trailing slash is optional.\<close>

definition route_match :: "string \<Rightarrow> string \<Rightarrow> bool" where
  "route_match pat p =
    (if pat \<noteq> [] \<and> last pat = CHR ''/''
     then map lower p = pat \<or> map lower p = butlast pat
     else map lower p = pat \<or> map lower p = pat @ ''/'')"

definition root_page :: string where
  "root_page =
    ''\<newline>    <h2>'' @ graduation_cap @ '' NU Result Playwright Proxy</h2>'' @
    ''\<newline>    <p>Running for educational purposes.</p>'' @
    ''\<newline>    <code>POST /fetch with exam, year, roll, reg, examYear</code>\<newline>  ''"

definition cors :: "res \<Rightarrow> res" where
  "cors r =
    header ''Access-Control-Allow-Headers'' ''Content-Type''
      (header ''Access-Control-Allow-Methods'' ''POST, GET, OPTIONS''
        (header ''Access-Control-Allow-Origin'' ''*'' r))"

text \<open>
  The middleware and routes in the order they are registered. An error from
  \<^verbatim>\<open>express.json()\<close> skips every middleware and route that follows and is answered
  by Express's final handler; so is a request no route matches, with 404. A route
  registered with \<^verbatim>\<open>app.get\<close> also answers \<^verbatim>\<open>HEAD\<close>, and only there can a request
  be fresh.
\<close>

definition app :: "world \<Rightarrow> request \<Rightarrow> result" where
  "app w req =
    (case parsed req of
       Rejected code \<Rightarrow> \<lparr>reply = Final code res0, trace = [], rejected = None\<rparr>
     | Passed b \<Rightarrow>
        (let r = cors res0 in
         if method req = ''OPTIONS'' then
           \<lparr>reply = Sent (status 200 r), trace = [], rejected = None\<rparr>
         else if method req = ''POST'' \<and> route_match ''/fetch'' (path req) then
           fetch_handler w b r
         else if (method req = ''GET'' \<or> method req = ''HEAD'') \<and> route_match ''/'' (path req) then
           \<lparr>reply = Sent (send_get w root_page r), trace = [], rejected = None\<rparr>
         else \<lparr>reply = Final 404 r, trace = [], rejected = None\<rparr>))"

section \<open>Sample requests and worlds\<close>

text \<open>A form page carrying both tokens, and a page with neither (such as the remote
  server's error page).\<close>

definition form_page :: "string \<Rightarrow> string option" where
  "form_page = map_of [(''csrf_token'', ''k3y''), (''letters_code'', ''QXZT'')]"

definition error_page :: "string \<Rightarrow> string option" where
  "error_page = Map.empty"

text \<open>A world in which the browser is up and every call returns; the same with pages
  that carry no token; the same with the browser not launched.\<close>

definition world_ok :: world where
  "world_ok =
    \<lparr>browser = True, newContext = Returns (), newPage = Returns (),
     setUserAgent = Returns (), goto = (\<lambda>url. Returns ()),
     document = (\<lambda>url. Returns form_page),
     remote = (\<lambda>s. Returns ''<table>result</table>''),
     pageError = (\<lambda>e. ''page.evaluate: TypeError: '' @ e),
     pageClose = (\<lambda>n. Returns ()), fresh = False\<rparr>"

definition world_no_tokens :: world where
  "world_no_tokens = world_ok\<lparr>document := (\<lambda>url. Returns error_page)\<rparr>"

text \<open>The same with \<^verbatim>\<open>context.newPage()\<close> failing.\<close>

definition world_no_page :: world where
  "world_no_page = world_ok\<lparr>newPage := Throws ''Target closed''\<rparr>"

text \<open>The same with a page object that has no \<^verbatim>\<open>setUserAgent\<close> method, which is
  how the page objects of Playwright, the library the program imports, are (it takes
  the user agent as an option of \<^verbatim>\<open>newContext\<close>): the call throws a
  \<^verbatim>\<open>TypeError\<close>.\<close>

definition world_type_error :: world where
  "world_type_error = world_ok\<lparr>setUserAgent := Throws ''page.setUserAgent is not a function''\<rparr>"

definition world_down :: world where
  "world_down = world_ok\<lparr>browser := False\<rparr>"

definition body_full :: "string \<rightharpoonup> jsval" where
  "body_full = map_of
    [(''exam'', JStr ''honours''), (''year'', JStr ''1''), (''roll'', JStr ''1234''),
     (''reg'', JStr ''5678''), (''examYear'', JStr ''2020'')]"

text \<open>The empty object \<^verbatim>\<open>{}\<close>.\<close>

definition body_empty :: "string \<rightharpoonup> jsval" where
  "body_empty = Map.empty"

definition post_fetch :: "(string \<rightharpoonup> jsval) option \<Rightarrow> request" where
  "post_fetch b = \<lparr>method = ''POST'', path = ''/fetch'', parsed = Passed b\<rparr>"

definition first_year :: urls where
  "first_year =
    \<lparr>form = ''http://results.nu.ac.bd/honours/first_year_result.php'',
     action = ''http://results.nu.ac.bd/honours/first_year_result_show.php''\<rparr>"

text \<open>The submission the full sample body leads to on the sample form page.\<close>

definition sample_submission :: submission where
  "sample_submission =
    \<lparr>target = ''http://results.nu.ac.bd/honours/first_year_result_show.php'',
     verb = ''POST'',
     inputs = [(''roll_number'', ''1234''), (''reg_no'', ''5678''), (''exam_year'', ''2020''),
               (''csrf_token'', ''k3y''), (''letters_code'', ''QXZT'')]\<rparr>"

text \<open>A year that has no string form: the object \<^verbatim>\<open>{"toString": "x"}\<close>.\<close>

definition year_without_string :: jsval where
  "year_without_string = JObj [(''toString'', JStr ''x'')]"

definition get_root :: request where
  "get_root = \<lparr>method = ''GET'', path = ''/'', parsed = Passed (Some body_empty)\<rparr>"

section \<open>Routing and evaluation\<close>

lemma route_fetch: "route_match ''/fetch'' ''/fetch''"
  by (simp add: route_match_def lower_def)

lemma route_root: "route_match ''/'' ''/''"
  by (simp add: route_match_def lower_def)

lemma app_post_fetch: "app w (post_fetch b) = fetch_handler w b (cors res0)"
  by (simp add: app_def post_fetch_def route_fetch)

lemmas eval_defs = fetch_handler_def fetch_try_def field_def body_full_def missing_def
  getUrls_def pages_get_def pages_def object_prototype_def base_def world_ok_def
  world_no_tokens_def world_down_def world_no_page_def world_type_error_def error_page_def
  first_year_def sample_submission_def
  session_def form_page_def build_form_def token_value_def form_action_def encode_char_def
  closes_def Let_def

lemma status_send: "statusCode (send b r) = statusCode r"
  by (simp add: send_def)


lemma status_status: "statusCode (status n r) = n"
  by (simp add: status_def)

lemma headers_send: "k \<noteq> ''Content-Type'' \<Longrightarrow> headers (send b r) k = headers r k"
  by (simp add: send_def)

lemma headers_status: "headers (status n r) = headers r"
  by (simp add: status_def)

section \<open>getUrls: the lookup table and the inherited keys\<close>

text \<open>The five rows of the table resolve to the URLs the table gives.\<close>

lemma getUrls_table:
  "getUrls (JStr ''honours'') (JStr ''1'') =
     Returns (Some \<lparr>form = ''http://results.nu.ac.bd/honours/first_year_result.php'',
           action = ''http://results.nu.ac.bd/honours/first_year_result_show.php''\<rparr>)"
  "getUrls (JStr ''honours'') (JStr ''2'') =
     Returns (Some \<lparr>form = ''http://results.nu.ac.bd/honours/second_year_result.php'',
           action = ''http://results.nu.ac.bd/honours/second_year_result_show.php''\<rparr>)"
  "getUrls (JStr ''honours'') (JStr ''3'') =
     Returns (Some \<lparr>form = ''http://results.nu.ac.bd/honours/third_year_result.php'',
           action = ''http://results.nu.ac.bd/honours/third_year_result_show.php''\<rparr>)"
  "getUrls (JStr ''honours'') (JStr ''4'') =
     Returns (Some \<lparr>form = ''http://results.nu.ac.bd/honours/fourth_year_result.php'',
           action = ''http://results.nu.ac.bd/honours/fourth_year_result_show.php''\<rparr>)"
  "getUrls (JStr ''honours'') (JStr ''consolidated'') =
     Returns (Some \<lparr>form = ''http://results.nu.ac.bd/honours/final_year_result.php'',
           action = ''http://results.nu.ac.bd/honours/final_year_result_show.php''\<rparr>)"
  by (simp_all add: getUrls_def pages_get_def pages_def base_def)

text \<open>Exactly which pairs resolve: the exam is the string \<^verbatim>\<open>honours\<close> and the year,
  as a property key, is a row of the table or a name \<^verbatim>\<open>Object.prototype\<close> defines.\<close>

lemma getUrls_Some_iff:
  "(\<exists>u. getUrls exam year = Returns (Some u)) \<longleftrightarrow>
     exam = JStr ''honours'' \<and>
     (\<exists>key. to_string year = Returns key
        \<and> key \<in> fst ` set pages \<union> fst ` set object_prototype)"
  by (auto simp: getUrls_def pages_get_def pages_def object_prototype_def
      split: option.splits if_splits outcome.splits)

lemma getUrls_other_exam: "exam \<noteq> JStr ''honours'' \<Longrightarrow> getUrls exam year = Returns None"
  by (simp add: getUrls_def)

text \<open>A year that has no string form makes the lookup throw.\<close>

lemma getUrls_throws: "getUrls (JStr ''honours'') year_without_string = Throws type_error"
  by (simp add: getUrls_def pages_get_def year_without_string_def)

text \<open>The year is compared as a property key, so the number 1 and the array
  \<^verbatim>\<open>["1"]\<close> resolve like the string \<^verbatim>\<open>"1"\<close>.\<close>

lemma getUrls_key_conversion:
  "getUrls (JStr ''honours'') (JNum ''1'') = getUrls (JStr ''honours'') (JStr ''1'')"
  "getUrls (JStr ''honours'') (JArr [JStr ''1'']) = getUrls (JStr ''honours'') (JStr ''1'')"
  by (simp_all add: getUrls_def pages_get_def)

text \<open>
  C3. The claim: the five table rows resolve to their URLs and every other pair gives
  \<^verbatim>\<open>null\<close>. The rows do (\<open>getUrls_table\<close>); but the year \<^verbatim>\<open>constructor\<close>, which is no
  row of the table, resolves too: \<^verbatim>\<open>pages['constructor']\<close> is the inherited function
  \<^verbatim>\<open>Object\<close>, which is truthy, and the URLs are built from its source text.
\<close>

theorem getUrls_inherited_key:
  "getUrls (JStr ''honours'') (JStr ''constructor'') =
     Returns (Some
       \<lparr>form = ''http://results.nu.ac.bd/honours/function Object() { [native code] }.php'',
        action =
          ''http://results.nu.ac.bd/honours/function Object() { [native code] }_show.php''\<rparr>)"
  by (simp add: getUrls_def pages_get_def pages_def object_prototype_def base_def)

section \<open>The session and the handler, path by path\<close>

lemma session_submit:
  assumes "SubmitForm s \<in> set (snd (snd (session w u roll reg ey r)))"
  shows "\<exists>doc. document w (form u) = Returns doc
      \<and> \<not> token_falsy (doc ''csrf_token'') \<and> \<not> token_falsy (doc ''letters_code'')
      \<and> build_form u roll reg ey
            \<lparr>csrf_token = doc ''csrf_token'', letters_code = doc ''letters_code''\<rparr> = Returns s
      \<and> fst (session w u roll reg ey r) =
          (case remote w s of Throws e \<Rightarrow> Inl e
           | Returns h \<Rightarrow> Inr (send h (header ''Content-Type'' ''text/html'' r)))"
  using assms by (auto simp: session_def Let_def split: outcome.split outcome.split_asm if_split_asm)

lemma session_sent:
  assumes "fst (session w u roll reg ey r) = Inr r'"
  shows "(\<exists>doc s h. document w (form u) = Returns doc
      \<and> \<not> token_falsy (doc ''csrf_token'') \<and> \<not> token_falsy (doc ''letters_code'')
      \<and> build_form u roll reg ey
            \<lparr>csrf_token = doc ''csrf_token'', letters_code = doc ''letters_code''\<rparr> = Returns s
      \<and> remote w s = Returns h
      \<and> SubmitForm s \<in> set (snd (snd (session w u roll reg ey r)))
      \<and> r' = send h (header ''Content-Type'' ''text/html'' r))
    \<or> r' = send (cross_mark @ '' Failed to extract security tokens'') (status 500 r)"
  using assms by (auto simp: session_def Let_def split: outcome.split_asm if_split_asm)

lemma session_tokens_absent:
  assumes "document w (form u) = Returns doc"
    and "token_falsy (doc ''csrf_token'') \<or> token_falsy (doc ''letters_code'')"
  shows "SubmitForm s \<notin> set (snd (snd (session w u roll reg ey r)))"
    and "fst (session w u roll reg ey r) = Inr r' \<Longrightarrow>
         r' = send (cross_mark @ '' Failed to extract security tokens'') (status 500 r)"
  using assms by (auto simp: session_def Let_def split: outcome.split outcome.split_asm)

lemma session_no_close_context: "CloseContext \<notin> set (snd (snd (session w u roll reg ey r)))"
  by (simp add: session_def Let_def split: outcome.split)

text \<open>When \<^verbatim>\<open>page.setUserAgent\<close> throws, the session ends there.\<close>

lemma session_setUserAgent_throws:
  assumes "setUserAgent w = Throws e"
  shows "snd (snd (session w u roll reg ey r)) \<in>
           {[NewContext], [NewContext, NewPage], [NewContext, NewPage, SetUserAgent user_agent]}"
    and "\<exists>e'. fst (session w u roll reg ey r) = Inl e'"
  using assms by (auto simp: session_def split: outcome.split)

lemma fetch_try_Some:
  "fetch_try w (Some obj) r =
    (if missing (field obj ''exam'') (field obj ''year'') (field obj ''reg'') (field obj ''examYear'')
     then (Inr (send ''Missing required fields'' (status 400 r)), False, [])
     else case getUrls (field obj ''exam'') (field obj ''year'') of
        Throws e \<Rightarrow> (Inl e, False, [])
      | Returns None \<Rightarrow> (Inr (send ''Invalid exam or year'' (status 400 r)), False, [])
      | Returns (Some u) \<Rightarrow>
          if \<not> browser w then (Inr (send ''Browser not ready'' (status 500 r)), False, [])
          else session w u (field obj ''roll'') (field obj ''reg'') (field obj ''examYear'') r)"
  by (simp add: fetch_try_def Let_def)

lemma fetch_try_None: "fetch_try w None r = (Inl destructure_error, False, [])"
  by (simp add: fetch_try_def)

lemma reply_fetch_handler:
  "reply (fetch_handler w b r) =
     Sent (case fst (fetch_try w b r) of
             Inl msg \<Rightarrow> send (proxy_error msg) (status 500 r)
           | Inr sent \<Rightarrow> sent)"
  by (simp add: fetch_handler_def Let_def split: prod.split outcome.split)

lemma trace_fetch_handler:
  "trace (fetch_handler w b r) =
     snd (snd (fetch_try w b r)) @ (if fst (snd (fetch_try w b r)) then [ClosePage] else [])"
  by (simp add: fetch_handler_def Let_def split: prod.split outcome.split)

text \<open>A request gets into the session only with a body, the validated fields, a
  resolved URL pair and the browser up.\<close>

lemma fetch_try_in_session:
  assumes "snd (snd (fetch_try w b r)) \<noteq> []"
  shows "\<exists>obj u. b = Some obj
      \<and> \<not> missing (field obj ''exam'') (field obj ''year'') (field obj ''reg'') (field obj ''examYear'')
      \<and> getUrls (field obj ''exam'') (field obj ''year'') = Returns (Some u) \<and> browser w
      \<and> fetch_try w b r =
          session w u (field obj ''roll'') (field obj ''reg'') (field obj ''examYear'') r"
proof (cases b)
  case None
  with assms show ?thesis by (simp add: fetch_try_None)
next
  case (Some obj)
  with assms show ?thesis
    by (auto simp: fetch_try_Some split: if_split_asm outcome.split_asm option.split_asm)
qed

lemma fetch_try_page_trace:
  assumes "fst (snd (fetch_try w b r))"
  shows "snd (snd (fetch_try w b r)) \<noteq> []"
proof (cases b)
  case None
  with assms show ?thesis by (simp add: fetch_try_None)
next
  case (Some obj)
  with assms show ?thesis
    by (auto simp: fetch_try_Some session_def Let_def
        split: if_split_asm outcome.split_asm option.split_asm)
qed

lemma fetch_try_browser_down:
  assumes "\<not> browser w"
  shows "snd (fetch_try w b r) = (False, [])"
proof (cases b)
  case None
  then show ?thesis by (simp add: fetch_try_None)
next
  case (Some obj)
  with assms show ?thesis
    by (simp add: fetch_try_Some split: outcome.split option.split)
qed

lemma fetch_try_sent_200:
  assumes "fst (fetch_try w b r) = Inr r'" and "statusCode r' = 200"
  shows "snd (snd (fetch_try w b r)) \<noteq> []"
proof (cases b)
  case None
  with assms show ?thesis by (simp add: fetch_try_None)
next
  case (Some obj)
  with assms show ?thesis
    by (auto simp: fetch_try_Some status_send status_status session_def Let_def
        split: if_split_asm outcome.split_asm option.split_asm)
qed

lemma fetch_handler_submit:
  assumes "SubmitForm s \<in> set (trace (fetch_handler w b r))"
  shows "\<exists>obj u doc. b = Some obj
      \<and> \<not> missing (field obj ''exam'') (field obj ''year'') (field obj ''reg'') (field obj ''examYear'')
      \<and> getUrls (field obj ''exam'') (field obj ''year'') = Returns (Some u) \<and> browser w
      \<and> document w (form u) = Returns doc
      \<and> \<not> token_falsy (doc ''csrf_token'') \<and> \<not> token_falsy (doc ''letters_code'')
      \<and> build_form u (field obj ''roll'') (field obj ''reg'') (field obj ''examYear'')
            \<lparr>csrf_token = doc ''csrf_token'', letters_code = doc ''letters_code''\<rparr> = Returns s
      \<and> reply (fetch_handler w b r) =
          Sent (case remote w s of
                  Throws e \<Rightarrow> send (proxy_error e) (status 500 r)
                | Returns h \<Rightarrow> send h (header ''Content-Type'' ''text/html'' r))"
proof -
  from assms have "snd (snd (fetch_try w b r)) \<noteq> []"
    by (auto simp: trace_fetch_handler split: if_split_asm)
  from fetch_try_in_session [OF this] obtain obj u where
    f: "b = Some obj"
       "\<not> missing (field obj ''exam'') (field obj ''year'') (field obj ''reg'') (field obj ''examYear'')"
       "getUrls (field obj ''exam'') (field obj ''year'') = Returns (Some u)" "browser w"
    and ft: "fetch_try w b r =
          session w u (field obj ''roll'') (field obj ''reg'') (field obj ''examYear'') r"
    by blast
  let ?S = "session w u (field obj ''roll'') (field obj ''reg'') (field obj ''examYear'') r"
  from assms have "SubmitForm s \<in> set (snd (snd ?S))"
    by (auto simp: trace_fetch_handler ft split: if_split_asm)
  from session_submit [OF this] obtain doc where
    d: "document w (form u) = Returns doc"
      "\<not> token_falsy (doc ''csrf_token'')" "\<not> token_falsy (doc ''letters_code'')"
      "build_form u (field obj ''roll'') (field obj ''reg'') (field obj ''examYear'')
            \<lparr>csrf_token = doc ''csrf_token'', letters_code = doc ''letters_code''\<rparr> = Returns s"
      "fst ?S = (case remote w s of Throws e \<Rightarrow> Inl e
           | Returns h \<Rightarrow> Inr (send h (header ''Content-Type'' ''text/html'' r)))"
    by blast
  have "reply (fetch_handler w b r) =
          Sent (case remote w s of
                  Throws e \<Rightarrow> send (proxy_error e) (status 500 r)
                | Returns h \<Rightarrow> send h (header ''Content-Type'' ''text/html'' r))"
    by (simp add: reply_fetch_handler ft d(5) split: outcome.split)
  with f d(1-4) show ?thesis by blast
qed

lemma app_trace:
  assumes "trace (app w req) \<noteq> []"
  shows "\<exists>b. parsed req = Passed b \<and> app w req = fetch_handler w b (cors res0)"
  using assms by (auto simp: app_def Let_def split: parse.split_asm if_split_asm)

lemma status_cors: "statusCode (cors res0) = 200"
  by (simp add: cors_def res0_def header_def)

lemma headers_cors:
  "headers (cors r) ''Access-Control-Allow-Origin'' = Some ''*''"
  "headers (cors r) ''Access-Control-Allow-Methods'' = Some ''POST, GET, OPTIONS''"
  "headers (cors r) ''Access-Control-Allow-Headers'' = Some ''Content-Type''"
  by (simp_all add: cors_def header_def)

lemma content_type_cors: "headers (cors res0) ''Content-Type'' = None"
  by (simp add: cors_def header_def res0_def)

lemma fetch_handler_tokens_absent:
  assumes u: "getUrls (field obj ''exam'') (field obj ''year'') = Returns (Some u)"
    and d: "document w (form u) = Returns doc"
    and a: "doc ''csrf_token'' = None \<or> doc ''letters_code'' = None"
  shows "SubmitForm s \<notin> set (trace (fetch_handler w (Some obj) r))"
    and "EvaluateTokens \<in> set (trace (fetch_handler w (Some obj) r)) \<Longrightarrow>
         reply_status (reply (fetch_handler w (Some obj) r)) = 500"
proof -
  from a have f: "token_falsy (doc ''csrf_token'') \<or> token_falsy (doc ''letters_code'')"
    by auto
  let ?S = "session w u (field obj ''roll'') (field obj ''reg'') (field obj ''examYear'') r"
  have ns: "SubmitForm s \<notin> set (snd (snd ?S))"
    by (rule session_tokens_absent(1) [OF d f])
  show "SubmitForm s \<notin> set (trace (fetch_handler w (Some obj) r))"
    using ns u by (simp add: trace_fetch_handler fetch_try_Some)
  assume e: "EvaluateTokens \<in> set (trace (fetch_handler w (Some obj) r))"
  have ft: "fetch_try w (Some obj) r = ?S"
    using e u by (auto simp: trace_fetch_handler fetch_try_Some split: if_split_asm)
  show "reply_status (reply (fetch_handler w (Some obj) r)) = 500"
  proof (cases "fst ?S")
    case (Inl e)
    then show ?thesis
      by (simp add: reply_fetch_handler ft status_send status_status)
  next
    case (Inr r')
    from session_tokens_absent(2) [OF d f Inr] Inr show ?thesis
      by (simp add: reply_fetch_handler ft status_send status_status)
  qed
qed

lemma fetch_handler_200:
  assumes "reply_status (reply (fetch_handler w b r)) = 200"
  shows "\<exists>obj u doc c l s. b = Some obj
      \<and> getUrls (field obj ''exam'') (field obj ''year'') = Returns (Some u)
      \<and> document w (form u) = Returns doc
      \<and> doc ''csrf_token'' = Some c \<and> c \<noteq> [] \<and> doc ''letters_code'' = Some l \<and> l \<noteq> []
      \<and> build_form u (field obj ''roll'') (field obj ''reg'') (field obj ''examYear'')
            \<lparr>csrf_token = Some c, letters_code = Some l\<rparr> = Returns s
      \<and> SubmitForm s \<in> set (trace (fetch_handler w b r))"
proof -
  from assms obtain r' where r': "fst (fetch_try w b r) = Inr r'" "statusCode r' = 200"
    by (cases "fst (fetch_try w b r)")
       (auto simp: reply_fetch_handler status_send status_status)
  from fetch_try_in_session [OF fetch_try_sent_200 [OF r']] obtain obj u where
    f: "b = Some obj"
       "getUrls (field obj ''exam'') (field obj ''year'') = Returns (Some u)"
    and ft: "fetch_try w b r =
          session w u (field obj ''roll'') (field obj ''reg'') (field obj ''examYear'') r"
    by blast
  let ?S = "session w u (field obj ''roll'') (field obj ''reg'') (field obj ''examYear'') r"
  from r'(1) have "fst ?S = Inr r'" by (simp add: ft)
  from session_sent [OF this] r'(2) obtain doc s where
    d: "document w (form u) = Returns doc"
       "\<not> token_falsy (doc ''csrf_token'')" "\<not> token_falsy (doc ''letters_code'')"
       "build_form u (field obj ''roll'') (field obj ''reg'') (field obj ''examYear'')
            \<lparr>csrf_token = doc ''csrf_token'', letters_code = doc ''letters_code''\<rparr> = Returns s"
       "SubmitForm s \<in> set (snd (snd ?S))"
    by (auto simp: status_send status_status)
  from d(2) obtain c where c: "doc ''csrf_token'' = Some c" "c \<noteq> []"
    by (cases "doc ''csrf_token''") auto
  from d(3) obtain l where l: "doc ''letters_code'' = Some l" "l \<noteq> []"
    by (cases "doc ''letters_code''") auto
  from d(5) have "SubmitForm s \<in> set (trace (fetch_handler w b r))"
    by (simp add: trace_fetch_handler ft)
  with f d(1) d(4) c l show ?thesis by auto
qed

lemma missing_falsy:
  assumes "k \<in> {''exam'', ''year'', ''reg'', ''examYear''}" and "\<not> truthy (field obj k)"
  shows "missing (field obj ''exam'') (field obj ''year'') (field obj ''reg'') (field obj ''examYear'')"
  using assms by (auto simp: missing_def)

lemma fetch_missing:
  assumes "missing (field obj ''exam'') (field obj ''year'') (field obj ''reg'') (field obj ''examYear'')"
  shows "app w (post_fetch (Some obj)) =
    \<lparr>reply = Sent (send ''Missing required fields'' (status 400 (cors res0))),
     trace = [], rejected = None\<rparr>"
  using assms by (simp add: app_post_fetch fetch_handler_def fetch_try_Some)

lemma session_headers:
  assumes "fst (session w u roll reg ey r) = Inr r'" and "k \<noteq> ''Content-Type''"
  shows "headers r' k = headers r k"
  using assms
  by (auto simp: session_def Let_def send_def status_def header_def
      split: outcome.split_asm if_split_asm)

lemma fetch_handler_headers:
  assumes "k \<noteq> ''Content-Type''"
  shows "headers (reply_res (reply (fetch_handler w b r))) k = headers r k"
proof (cases "fst (fetch_try w b r)")
  case (Inl e)
  then show ?thesis using assms by (simp add: reply_fetch_handler headers_send headers_status)
next
  case (Inr r')
  have "headers r' k = headers r k"
  proof (cases b)
    case None
    with Inr show ?thesis by (simp add: fetch_try_None)
  next
    case (Some obj)
    with Inr assms show ?thesis
      by (auto simp: fetch_try_Some headers_send headers_status dest: session_headers
          split: if_split_asm option.split_asm outcome.split_asm)
  qed
  with Inr show ?thesis by (simp add: reply_fetch_handler)
qed

lemma fetch_handler_no_close_context: "CloseContext \<notin> set (trace (fetch_handler w b r))"
proof (cases b)
  case None
  then show ?thesis by (simp add: trace_fetch_handler fetch_try_None)
next
  case (Some obj)
  then show ?thesis
    by (simp add: trace_fetch_handler fetch_try_Some session_no_close_context
        split: option.split outcome.split)
qed

text \<open>The action URL of a table row is posted to as it is; the one built from an
  inherited key is percent-encoded.\<close>

lemma form_action_table: "form_action (action first_year) = action first_year"
  by (simp add: form_action_def encode_char_def first_year_def)

lemma form_action_inherited:
  "form_action
     ''http://results.nu.ac.bd/honours/function Object() { [native code] }_show.php'' =
   ''http://results.nu.ac.bd/honours/function%20Object()%20%7B%20[native%20code]%20%7D_show.php''"
  by (simp add: form_action_def encode_char_def)

text \<open>A \<^verbatim>\<open>roll\<close> that has no string form makes the script of step 3 throw while it
  builds the form: nothing is posted and the request is answered 500.\<close>

lemma unconvertible_roll_aborts:
  "trace (app world_ok (post_fetch (Some (body_full(''roll'' \<mapsto> year_without_string))))) =
     [NewContext, NewPage, SetUserAgent user_agent,
      Goto ''http://results.nu.ac.bd/honours/first_year_result.php'', EvaluateTokens,
      FormAborted, ClosePage]"
  "reply_status (reply (app world_ok
     (post_fetch (Some (body_full(''roll'' \<mapsto> year_without_string)))))) = 500"
  by (simp_all add: app_post_fetch eval_defs year_without_string_def status_send status_status)

section \<open>Validation of the request (C1, C10, C8)\<close>

text \<open>A request in which one of the four validated fields is absent is answered 400
  before any browser call.\<close>

lemma absent_checked_field_rejected:
  assumes "k \<in> {''exam'', ''year'', ''reg'', ''examYear''}" and "obj k = None"
  shows "app w (post_fetch (Some obj)) =
    \<lparr>reply = Sent (send ''Missing required fields'' (status 400 (cors res0))),
     trace = [], rejected = None\<rparr>"
proof -
  from assms(2) have "\<not> truthy (field obj k)" by (simp add: field_def)
  from fetch_missing [OF missing_falsy [OF assms(1) this]] show ?thesis .
qed

text \<open>
  C1. The claim: a request whose body lacks any one of \<^verbatim>\<open>exam\<close>, \<^verbatim>\<open>year\<close>,
  \<^verbatim>\<open>roll\<close>, \<^verbatim>\<open>reg\<close>, \<^verbatim>\<open>examYear\<close> is answered 400 with no navigation. The test
  at the head of the handler names four of the five fields; \<^verbatim>\<open>roll\<close> is not among
  them. The sample request without \<^verbatim>\<open>roll\<close> is answered 200, after a session was
  opened, the form page loaded and the form submitted with \<^verbatim>\<open>roll_number\<close> set to the
  text \<^verbatim>\<open>undefined\<close>; where \<^verbatim>\<open>page.setUserAgent\<close> throws it is answered 500, after a
  context and a page were created.
\<close>

theorem fetch_without_roll_accepted:
  "reply_status (reply (app world_ok (post_fetch (Some (body_full(''roll'' := None)))))) = 200
   \<and> trace (app world_ok (post_fetch (Some (body_full(''roll'' := None))))) =
      [NewContext, NewPage, SetUserAgent user_agent,
       Goto ''http://results.nu.ac.bd/honours/first_year_result.php'', EvaluateTokens,
       SubmitForm
         \<lparr>target = ''http://results.nu.ac.bd/honours/first_year_result_show.php'',
          verb = ''POST'',
          inputs = [(''roll_number'', ''undefined''), (''reg_no'', ''5678''),
                    (''exam_year'', ''2020''), (''csrf_token'', ''k3y''),
                    (''letters_code'', ''QXZT'')]\<rparr>,
       ClosePage]
   \<and> reply_status (reply (app world_type_error
         (post_fetch (Some (body_full(''roll'' := None)))))) = 500
   \<and> trace (app world_type_error (post_fetch (Some (body_full(''roll'' := None))))) =
      [NewContext, NewPage, SetUserAgent user_agent, ClosePage]"
  by (simp add: app_post_fetch eval_defs cors_def res0_def header_def send_def status_def)

text \<open>
  C10. When \<^verbatim>\<open>exam\<close>, \<^verbatim>\<open>year\<close>, \<^verbatim>\<open>reg\<close> or \<^verbatim>\<open>examYear\<close> is present with a
  falsy value (the empty string in particular), the handled request is the same as for
  the body without that field: 400 with the text \<^verbatim>\<open>Missing required fields\<close>, and no
  browser call.
\<close>

theorem falsy_field_as_absent:
  assumes "k \<in> {''exam'', ''year'', ''reg'', ''examYear''}"
    and "obj k = Some v" and "\<not> truthy v"
  shows "app w (post_fetch (Some obj)) = app w (post_fetch (Some (obj(k := None))))
    \<and> reply (app w (post_fetch (Some obj))) =
        Sent (send ''Missing required fields'' (status 400 (cors res0)))
    \<and> reply_status (reply (app w (post_fetch (Some obj)))) = 400
    \<and> trace (app w (post_fetch (Some obj))) = []"
proof -
  have 1: "\<not> truthy (field obj k)" using assms by (simp add: field_def)
  have 2: "\<not> truthy (field (obj(k := None)) k)" by (simp add: field_def)
  show ?thesis
    by (simp add: fetch_missing [OF missing_falsy [OF assms(1) 1]]
        fetch_missing [OF missing_falsy [OF assms(1) 2]] status_send status_status)
qed

theorem falsy_field_as_absent_witness:
  "''reg'' \<in> {''exam'', ''year'', ''reg'', ''examYear''}
   \<and> (body_full(''reg'' \<mapsto> JStr [])) ''reg'' = Some (JStr [])
   \<and> \<not> truthy (JStr [])
   \<and> app world_ok (post_fetch (Some (body_full(''reg'' \<mapsto> JStr [])))) =
       app world_ok (post_fetch (Some ((body_full(''reg'' \<mapsto> JStr []))(''reg'' := None))))
   \<and> reply_status (reply (app world_ok (post_fetch (Some (body_full(''reg'' \<mapsto> JStr [])))))) = 400
   \<and> trace (app world_ok (post_fetch (Some (body_full(''reg'' \<mapsto> JStr []))))) = []"
proof -
  have k: "''reg'' \<in> {''exam'', ''year'', ''reg'', ''examYear''}" by simp
  have v: "(body_full(''reg'' \<mapsto> JStr [])) ''reg'' = Some (JStr [])" by simp
  have f: "\<not> truthy (JStr [])" by simp
  from falsy_field_as_absent
         [of "''reg''" "body_full(''reg'' \<mapsto> JStr [])" "JStr []" world_ok, OF k v f]
    k v f
  show ?thesis by blast
qed

text \<open>A request that passes validation and whose exam and year do not resolve is
  answered 400 before any browser call; one whose year has no string form is answered
  500 by the \<^verbatim>\<open>catch\<close>, before any browser call too.\<close>

lemma unresolved_rejected:
  assumes "\<not> missing (field obj ''exam'') (field obj ''year'') (field obj ''reg'')
             (field obj ''examYear'')"
    and "getUrls (field obj ''exam'') (field obj ''year'') = Returns None"
  shows "app w (post_fetch (Some obj)) =
    \<lparr>reply = Sent (send ''Invalid exam or year'' (status 400 (cors res0))),
     trace = [], rejected = None\<rparr>"
  using assms by (simp add: app_post_fetch fetch_handler_def fetch_try_Some)

lemma unconvertible_year_500:
  assumes "\<not> missing (field obj ''exam'') (field obj ''year'') (field obj ''reg'')
             (field obj ''examYear'')"
    and "getUrls (field obj ''exam'') (field obj ''year'') = Throws e"
  shows "app w (post_fetch (Some obj)) =
    \<lparr>reply = Sent (send (proxy_error e) (status 500 (cors res0))),
     trace = [], rejected = None\<rparr>"
  using assms by (simp add: app_post_fetch fetch_handler_def fetch_try_Some)

text \<open>
  C8. The claim: a request whose exam and year are not in the lookup table is answered
  400 with no navigation. That holds whenever \<open>getUrls\<close> gives \<^verbatim>\<open>null\<close>
  (\<open>unresolved_rejected\<close>), but \<open>getUrls\<close> resolves the year \<^verbatim>\<open>constructor\<close>, which
  is not in the table: the request opens a session and navigates to the URL built from
  the inherited function, and, that page carrying no tokens, is answered 500.
\<close>

theorem fetch_inherited_year_navigates:
  "reply (app world_no_tokens
       (post_fetch (Some (body_full(''year'' \<mapsto> JStr ''constructor''))))) =
     Sent (send (cross_mark @ '' Failed to extract security tokens'') (status 500 (cors res0)))
   \<and> reply_status (reply (app world_no_tokens
       (post_fetch (Some (body_full(''year'' \<mapsto> JStr ''constructor'')))))) = 500
   \<and> trace (app world_no_tokens
       (post_fetch (Some (body_full(''year'' \<mapsto> JStr ''constructor''))))) =
      [NewContext, NewPage, SetUserAgent user_agent,
       Goto ''http://results.nu.ac.bd/honours/function Object() { [native code] }.php'',
       EvaluateTokens, ClosePage, ClosePage]
   \<and> reply_status (reply (app world_type_error
       (post_fetch (Some (body_full(''year'' \<mapsto> JStr ''constructor'')))))) = 500
   \<and> trace (app world_type_error
       (post_fetch (Some (body_full(''year'' \<mapsto> JStr ''constructor''))))) =
      [NewContext, NewPage, SetUserAgent user_agent, ClosePage]"
  by (simp add: app_post_fetch eval_defs status_send status_status)

section \<open>The browser check (C7)\<close>

text \<open>
  C7. The claim: with the browser unavailable every POST /fetch is answered 500 without
  navigation, and GET / is still answered 200. The browser is checked after the fields
  and the URL lookup, so a request that fails those is answered 400, not 500: the
  empty body is.
\<close>

theorem browser_down_empty_body_400:
  "\<not> browser world_down
   \<and> reply_status (reply (app world_down (post_fetch (Some body_empty)))) = 400"
  by (simp add: app_post_fetch eval_defs body_empty_def status_def send_def)

text \<open>
  C7, as the code has it. With the browser unavailable, no POST to the \<^verbatim>\<open>/fetch\<close>
  route makes a browser call. A request whose body the JSON parser rejects is answered
  by Express with the parser's status. Any other is answered by the handler: 400 when a
  validated field is missing or falsy, or when the exam and year resolve to
  \<^verbatim>\<open>null\<close>; 500 when they resolve to a URL pair (\<^verbatim>\<open>Browser not ready\<close>), when the
  lookup throws, or when \<^verbatim>\<open>req.body\<close> is undefined (the error page in both cases).
  A GET to the \<^verbatim>\<open>/\<close> route that the parser lets pass is answered 200, or 304 when
  Express finds the request fresh.
\<close>

theorem browser_down:
  assumes "\<not> browser w"
    and "method req = ''POST''" and "route_match ''/fetch'' (path req)"
    and "method g = ''GET''" and "route_match ''/'' (path g)"
  shows "trace (app w req) = []
    \<and> reply (app w req) =
        (case parsed req of
           Rejected code \<Rightarrow> Final code res0
         | Passed None \<Rightarrow> Sent (send (proxy_error destructure_error) (status 500 (cors res0)))
         | Passed (Some obj) \<Rightarrow>
             Sent (if missing (field obj ''exam'') (field obj ''year'') (field obj ''reg'')
                        (field obj ''examYear'')
                   then send ''Missing required fields'' (status 400 (cors res0))
                   else case getUrls (field obj ''exam'') (field obj ''year'') of
                          Throws e \<Rightarrow> send (proxy_error e) (status 500 (cors res0))
                        | Returns None \<Rightarrow> send ''Invalid exam or year'' (status 400 (cors res0))
                        | Returns (Some u) \<Rightarrow> send ''Browser not ready'' (status 500 (cors res0))))
    \<and> reply_status (reply (app w g)) =
        (case parsed g of
           Rejected code \<Rightarrow> code
         | Passed b \<Rightarrow> if fresh w then 304 else 200)"
proof -
  have post: "app w req =
      (case parsed req of
         Rejected code \<Rightarrow> \<lparr>reply = Final code res0, trace = [], rejected = None\<rparr>
       | Passed b \<Rightarrow> fetch_handler w b (cors res0))"
    using assms(2,3) by (simp add: app_def split: parse.split)
  have t: "trace (app w req) = []"
    by (simp add: post trace_fetch_handler fetch_try_browser_down [OF assms(1)]
        split: parse.split)
  have r: "reply (app w req) =
        (case parsed req of
           Rejected code \<Rightarrow> Final code res0
         | Passed None \<Rightarrow> Sent (send (proxy_error destructure_error) (status 500 (cors res0)))
         | Passed (Some obj) \<Rightarrow>
             Sent (if missing (field obj ''exam'') (field obj ''year'') (field obj ''reg'')
                        (field obj ''examYear'')
                   then send ''Missing required fields'' (status 400 (cors res0))
                   else case getUrls (field obj ''exam'') (field obj ''year'') of
                          Throws e \<Rightarrow> send (proxy_error e) (status 500 (cors res0))
                        | Returns None \<Rightarrow> send ''Invalid exam or year'' (status 400 (cors res0))
                        | Returns (Some u) \<Rightarrow> send ''Browser not ready'' (status 500 (cors res0))))"
    using assms(1)
    by (auto simp: post reply_fetch_handler fetch_try_None fetch_try_Some
        split: parse.split option.split outcome.split)
  have g: "reply_status (reply (app w g)) =
        (case parsed g of
           Rejected code \<Rightarrow> code
         | Passed b \<Rightarrow> if fresh w then 304 else 200)"
    using assms(4,5)
    by (simp add: app_def Let_def send_get_def status_send status_cors split: parse.split)
  from t r g show ?thesis by blast
qed

theorem browser_down_witness:
  "\<not> browser world_down
   \<and> method (post_fetch (Some body_full)) = ''POST''
   \<and> route_match ''/fetch'' (path (post_fetch (Some body_full)))
   \<and> method get_root = ''GET'' \<and> route_match ''/'' (path get_root)
   \<and> trace (app world_down (post_fetch (Some body_full))) = []
   \<and> reply (app world_down (post_fetch (Some body_full))) =
       Sent (send ''Browser not ready'' (status 500 (cors res0)))
   \<and> reply_status (reply (app world_down (post_fetch (Some body_full)))) = 500
   \<and> reply (app world_down (post_fetch (Some (body_full(''year'' \<mapsto> year_without_string))))) =
       Sent (send (proxy_error type_error) (status 500 (cors res0)))
   \<and> reply_status (reply (app world_down get_root)) = 200"
proof -
  have h: "\<not> browser world_down" by (simp add: world_down_def world_ok_def)
  have p: "method (post_fetch (Some body_full)) = ''POST''"
    "route_match ''/fetch'' (path (post_fetch (Some body_full)))"
    by (simp_all add: post_fetch_def route_fetch)
  have q: "method get_root = ''GET''" "route_match ''/'' (path get_root)"
    by (simp_all add: get_root_def route_root)
  have m: "\<not> missing (field body_full ''exam'') (field body_full ''year'')
             (field body_full ''reg'') (field body_full ''examYear'')"
    by (simp add: missing_def field_def body_full_def)
  have u: "getUrls (field body_full ''exam'') (field body_full ''year'') =
      Returns (Some first_year)"
    by (simp add: getUrls_table field_def body_full_def first_year_def)
  have f: "\<not> fresh world_down" by (simp add: world_down_def world_ok_def)
  have b: "parsed (post_fetch (Some body_full)) = Passed (Some body_full)"
    "parsed get_root = Passed (Some body_empty)"
    by (simp_all add: post_fetch_def get_root_def)
  have p': "method (post_fetch (Some (body_full(''year'' \<mapsto> year_without_string)))) = ''POST''"
    "route_match ''/fetch'' (path (post_fetch (Some (body_full(''year'' \<mapsto> year_without_string)))))"
    by (simp_all add: post_fetch_def route_fetch)
  have m': "\<not> missing (field (body_full(''year'' \<mapsto> year_without_string)) ''exam'')
             (field (body_full(''year'' \<mapsto> year_without_string)) ''year'')
             (field (body_full(''year'' \<mapsto> year_without_string)) ''reg'')
             (field (body_full(''year'' \<mapsto> year_without_string)) ''examYear'')"
    by (simp add: missing_def field_def body_full_def year_without_string_def)
  have u': "getUrls (field (body_full(''year'' \<mapsto> year_without_string)) ''exam'')
             (field (body_full(''year'' \<mapsto> year_without_string)) ''year'') = Throws type_error"
    by (simp add: getUrls_throws field_def body_full_def)
  have b': "parsed (post_fetch (Some (body_full(''year'' \<mapsto> year_without_string)))) =
      Passed (Some (body_full(''year'' \<mapsto> year_without_string)))"
    by (simp add: post_fetch_def)
  from browser_down [OF h p q] browser_down [OF h p' q] h p q m u f b m' u' b' show ?thesis
    by (simp add: status_send status_status)
qed

section \<open>Token extraction and submission (C4, C5, C6)\<close>

text \<open>
  C4. When the form page lacks either token and the handler got as far as extracting
  them, the request is answered 500 and nothing is submitted. A POST /fetch is answered
  200 only if both tokens were found, non-empty, in the page this request loaded, and
  the form submitted in this request carries exactly those. The handler reads no state
  but the world of the request it serves, so there is no earlier token to use.
\<close>

theorem tokens_required:
  "(b = Some obj
      \<and> getUrls (field obj ''exam'') (field obj ''year'') = Returns (Some u)
      \<and> document w (form u) = Returns doc
      \<and> (doc ''csrf_token'' = None \<or> doc ''letters_code'' = None)
      \<and> EvaluateTokens \<in> set (trace (app w (post_fetch b)))
     \<longrightarrow> reply_status (reply (app w (post_fetch b))) = 500
        \<and> (\<forall>s. SubmitForm s \<notin> set (trace (app w (post_fetch b)))))
   \<and> (reply_status (reply (app w (post_fetch b))) = 200
     \<longrightarrow> (\<exists>obj' u' doc' c l s. b = Some obj'
          \<and> getUrls (field obj' ''exam'') (field obj' ''year'') = Returns (Some u')
          \<and> document w (form u') = Returns doc'
          \<and> doc' ''csrf_token'' = Some c \<and> c \<noteq> []
          \<and> doc' ''letters_code'' = Some l \<and> l \<noteq> []
          \<and> build_form u' (field obj' ''roll'') (field obj' ''reg'')
                (field obj' ''examYear'') \<lparr>csrf_token = Some c, letters_code = Some l\<rparr>
              = Returns s
          \<and> map_of (inputs s) ''csrf_token'' = Some c
          \<and> map_of (inputs s) ''letters_code'' = Some l
          \<and> SubmitForm s \<in> set (trace (app w (post_fetch b)))))"
proof (intro conjI impI allI)
  assume h: "b = Some obj
      \<and> getUrls (field obj ''exam'') (field obj ''year'') = Returns (Some u)
      \<and> document w (form u) = Returns doc
      \<and> (doc ''csrf_token'' = None \<or> doc ''letters_code'' = None)
      \<and> EvaluateTokens \<in> set (trace (app w (post_fetch b)))"
  then show "reply_status (reply (app w (post_fetch b))) = 500"
    using fetch_handler_tokens_absent(2) [of obj u w doc "cors res0"]
    by (auto simp: app_post_fetch)
  fix s
  from h show "SubmitForm s \<notin> set (trace (app w (post_fetch b)))"
    using fetch_handler_tokens_absent(1) [of obj u w doc s "cors res0"]
    by (auto simp: app_post_fetch)
next
  assume "reply_status (reply (app w (post_fetch b))) = 200"
  then have "reply_status (reply (fetch_handler w b (cors res0))) = 200"
    by (simp add: app_post_fetch)
  from fetch_handler_200 [OF this] obtain obj' u' doc' c l s where
    f: "b = Some obj'"
       "getUrls (field obj' ''exam'') (field obj' ''year'') = Returns (Some u')"
       "document w (form u') = Returns doc'"
       "doc' ''csrf_token'' = Some c" "c \<noteq> []" "doc' ''letters_code'' = Some l" "l \<noteq> []"
       "build_form u' (field obj' ''roll'') (field obj' ''reg'')
          (field obj' ''examYear'') \<lparr>csrf_token = Some c, letters_code = Some l\<rparr> = Returns s"
       "SubmitForm s \<in> set (trace (fetch_handler w b (cors res0)))"
    by blast
  from f(8) have "map_of (inputs s) ''csrf_token'' = Some c"
    "map_of (inputs s) ''letters_code'' = Some l"
    by (auto simp: build_form_def token_value_def split: outcome.split_asm)
  with f show "\<exists>obj' u' doc' c l s. b = Some obj'
          \<and> getUrls (field obj' ''exam'') (field obj' ''year'') = Returns (Some u')
          \<and> document w (form u') = Returns doc'
          \<and> doc' ''csrf_token'' = Some c \<and> c \<noteq> []
          \<and> doc' ''letters_code'' = Some l \<and> l \<noteq> []
          \<and> build_form u' (field obj' ''roll'') (field obj' ''reg'')
                (field obj' ''examYear'') \<lparr>csrf_token = Some c, letters_code = Some l\<rparr>
              = Returns s
          \<and> map_of (inputs s) ''csrf_token'' = Some c
          \<and> map_of (inputs s) ''letters_code'' = Some l
          \<and> SubmitForm s \<in> set (trace (app w (post_fetch b)))"
    by (auto simp: app_post_fetch)
qed

theorem tokens_required_witness:
  "reply_status (reply (app world_no_tokens (post_fetch (Some body_full)))) = 500
   \<and> EvaluateTokens \<in> set (trace (app world_no_tokens (post_fetch (Some body_full))))
   \<and> (\<forall>s. SubmitForm s \<notin> set (trace (app world_no_tokens (post_fetch (Some body_full)))))
   \<and> reply_status (reply (app world_ok (post_fetch (Some body_full)))) = 200
   \<and> (\<exists>obj' u' doc' c l s. Some body_full = Some obj'
          \<and> getUrls (field obj' ''exam'') (field obj' ''year'') = Returns (Some u')
          \<and> document world_ok (form u') = Returns doc'
          \<and> doc' ''csrf_token'' = Some c \<and> c \<noteq> []
          \<and> doc' ''letters_code'' = Some l \<and> l \<noteq> []
          \<and> build_form u' (field obj' ''roll'') (field obj' ''reg'')
                (field obj' ''examYear'') \<lparr>csrf_token = Some c, letters_code = Some l\<rparr>
              = Returns s
          \<and> map_of (inputs s) ''csrf_token'' = Some c
          \<and> map_of (inputs s) ''letters_code'' = Some l
          \<and> SubmitForm s \<in> set (trace (app world_ok (post_fetch (Some body_full)))))"
proof -
  have e: "EvaluateTokens \<in> set (trace (app world_no_tokens (post_fetch (Some body_full))))"
    by (simp add: app_post_fetch eval_defs)
  have a: "Some body_full = Some body_full
      \<and> getUrls (field body_full ''exam'') (field body_full ''year'') = Returns (Some first_year)
      \<and> document world_no_tokens (form first_year) = Returns error_page
      \<and> (error_page ''csrf_token'' = None \<or> error_page ''letters_code'' = None)
      \<and> EvaluateTokens \<in> set (trace (app world_no_tokens (post_fetch (Some body_full))))"
    using e
    by (simp add: getUrls_table field_def body_full_def first_year_def world_no_tokens_def
        world_ok_def error_page_def)
  have b: "reply_status (reply (app world_ok (post_fetch (Some body_full)))) = 200"
    by (simp add: app_post_fetch eval_defs cors_def res0_def header_def send_def)
  from tokens_required
         [of "Some body_full" body_full first_year world_no_tokens error_page,
          THEN conjunct1, rule_format, OF a]
    tokens_required
         [of "Some body_full" body_full first_year world_ok error_page,
          THEN conjunct2, rule_format, OF b]
    e b
  show ?thesis by simp
qed

text \<open>When every step up to the extraction returns, both tokens are found non-empty
  and the three request fields have a string form, the form is submitted.\<close>

lemma submission_made:
  assumes "\<not> missing (field obj ''exam'') (field obj ''year'') (field obj ''reg'')
             (field obj ''examYear'')"
    and "getUrls (field obj ''exam'') (field obj ''year'') = Returns (Some u)" and "browser w"
    and "newContext w = Returns ()" and "newPage w = Returns ()"
    and "setUserAgent w = Returns ()" and "goto w (form u) = Returns ()"
    and "document w (form u) = Returns doc"
    and "doc ''csrf_token'' = Some c" and "c \<noteq> []"
    and "doc ''letters_code'' = Some l" and "l \<noteq> []"
    and "build_form u (field obj ''roll'') (field obj ''reg'') (field obj ''examYear'')
            \<lparr>csrf_token = Some c, letters_code = Some l\<rparr> = Returns s"
  shows "SubmitForm s \<in> set (trace (app w (post_fetch (Some obj))))"
  using assms
  by (simp add: app_post_fetch trace_fetch_handler fetch_try_Some session_def Let_def
      split: outcome.split)

text \<open>Whenever the handler submitted the form and the remote endpoint answered with a
  text, the reply is sent with status 200 and that text, unchanged, as the body; the
  handler sets the type \<^verbatim>\<open>text/html\<close> and \<^verbatim>\<open>res.send\<close> adds the charset to it.\<close>

lemma relay_when_submitted:
  assumes "SubmitForm s \<in> set (trace (app w req))" and "remote w s = Returns html"
  shows "reply (app w req) = Sent (send html (header ''Content-Type'' ''text/html'' (cors res0)))"
    and "reply_status (reply (app w req)) = 200"
    and "headers (reply_res (reply (app w req))) ''Content-Type'' =
           Some ''text/html; charset=utf-8''"
    and "content (reply_res (reply (app w req))) = Some html"
proof -
  from assms(1) have "trace (app w req) \<noteq> []" by auto
  from app_trace [OF this] obtain b where
    b: "app w req = fetch_handler w b (cors res0)" by blast
  from assms(1) have "SubmitForm s \<in> set (trace (fetch_handler w b (cors res0)))"
    by (simp add: b)
  from fetch_handler_submit [OF this] assms(2)
  show 1: "reply (app w req) =
      Sent (send html (header ''Content-Type'' ''text/html'' (cors res0)))"
    by (auto simp: b)
  show "reply_status (reply (app w req)) = 200"
    by (simp add: 1 send_def header_def status_cors)
  show "headers (reply_res (reply (app w req))) ''Content-Type'' =
           Some ''text/html; charset=utf-8''"
    by (simp add: 1 send_def header_def)
  show "content (reply_res (reply (app w req))) = Some html"
    by (simp add: 1 send_def)
qed

text \<open>When \<^verbatim>\<open>page.setUserAgent\<close> throws, no page is loaded, no token is read, nothing
  is submitted, and no POST /fetch is answered 200.\<close>

lemma setUserAgent_throws_trace:
  assumes "setUserAgent w = Throws e" and "x \<in> set (trace (app w req))"
  shows "x \<in> {NewContext, NewPage, SetUserAgent user_agent, ClosePage}"
proof -
  from assms(2) have "trace (app w req) \<noteq> []" by auto
  from app_trace [OF this] obtain b where
    b: "app w req = fetch_handler w b (cors res0)" by blast
  from assms(2) have ne: "snd (snd (fetch_try w b (cors res0))) \<noteq> []"
    by (auto simp: b trace_fetch_handler dest: fetch_try_page_trace split: if_split_asm)
  from fetch_try_in_session [OF ne] obtain obj u where
    ft: "fetch_try w b (cors res0) =
        session w u (field obj ''roll'') (field obj ''reg'') (field obj ''examYear'')
          (cors res0)"
    by blast
  from session_setUserAgent_throws(1) [OF assms(1), of u "field obj ''roll''"
      "field obj ''reg''" "field obj ''examYear''" "cors res0"] assms(2)
  show ?thesis
    by (auto simp: b trace_fetch_handler ft split: if_split_asm)
qed

lemma setUserAgent_throws_no_success:
  assumes "setUserAgent w = Throws e"
  shows "Goto url \<notin> set (trace (app w req))"
    and "EvaluateTokens \<notin> set (trace (app w req))"
    and "SubmitForm s \<notin> set (trace (app w req))"
    and "reply_status (reply (app w (post_fetch b))) \<noteq> 200"
proof -
  show "Goto url \<notin> set (trace (app w req))"
    using setUserAgent_throws_trace [OF assms, of "Goto url" req] by auto
  show "EvaluateTokens \<notin> set (trace (app w req))"
    using setUserAgent_throws_trace [OF assms, of EvaluateTokens req] by auto
  show "SubmitForm s \<notin> set (trace (app w req))"
    using setUserAgent_throws_trace [OF assms, of "SubmitForm s" req] by auto
  show "reply_status (reply (app w (post_fetch b))) \<noteq> 200"
  proof
    assume "reply_status (reply (app w (post_fetch b))) = 200"
    then have "reply_status (reply (fetch_handler w b (cors res0))) = 200"
      by (simp add: app_post_fetch)
    from fetch_handler_200 [OF this] obtain s' where
      "SubmitForm s' \<in> set (trace (app w (post_fetch b)))"
      by (auto simp: app_post_fetch)
    from setUserAgent_throws_trace [OF assms this] show False by simp
  qed
qed


text \<open>What a submission is, when one is made: a POST to the action URL that \<open>getUrls\<close>
  gave for this request's exam and year, as the page's URL parser writes it, carrying
  exactly the five inputs in the order of the script, the first three holding the
  request's \<^verbatim>\<open>roll\<close>, \<^verbatim>\<open>reg\<close> and \<^verbatim>\<open>examYear\<close> as an input element stores them,
  the last two the tokens read from the form page loaded in this request.\<close>

lemma submission_shape:
  assumes "SubmitForm s \<in> set (trace (app w req))"
  shows "\<exists>obj u doc c l a b d. parsed req = Passed (Some obj)
     \<and> getUrls (field obj ''exam'') (field obj ''year'') = Returns (Some u)
     \<and> document w (form u) = Returns doc
     \<and> doc ''csrf_token'' = Some c \<and> doc ''letters_code'' = Some l
     \<and> input_value (field obj ''roll'') = Returns a
     \<and> input_value (field obj ''reg'') = Returns b
     \<and> input_value (field obj ''examYear'') = Returns d
     \<and> s = \<lparr>target = form_action (action u), verb = ''POST'',
            inputs = [(''roll_number'', a), (''reg_no'', b), (''exam_year'', d),
                      (''csrf_token'', c), (''letters_code'', l)]\<rparr>"
proof -
  from assms have "trace (app w req) \<noteq> []" by auto
  from app_trace [OF this] obtain b' where
    b: "parsed req = Passed b'" "app w req = fetch_handler w b' (cors res0)" by blast
  from assms have "SubmitForm s \<in> set (trace (fetch_handler w b' (cors res0)))"
    by (simp add: b)
  from fetch_handler_submit [OF this] obtain obj u doc where
    f: "b' = Some obj" "getUrls (field obj ''exam'') (field obj ''year'') = Returns (Some u)"
       "document w (form u) = Returns doc"
       "\<not> token_falsy (doc ''csrf_token'')" "\<not> token_falsy (doc ''letters_code'')"
       "build_form u (field obj ''roll'') (field obj ''reg'') (field obj ''examYear'')
            \<lparr>csrf_token = doc ''csrf_token'', letters_code = doc ''letters_code''\<rparr> = Returns s"
    by blast
  from f(4) obtain c where c: "doc ''csrf_token'' = Some c" by (cases "doc ''csrf_token''") auto
  from f(5) obtain l where l: "doc ''letters_code'' = Some l" by (cases "doc ''letters_code''") auto
  from f(6) c l obtain a b d where
    "input_value (field obj ''roll'') = Returns a"
    "input_value (field obj ''reg'') = Returns b"
    "input_value (field obj ''examYear'') = Returns d"
    "s = \<lparr>target = form_action (action u), verb = ''POST'',
            inputs = [(''roll_number'', a), (''reg_no'', b), (''exam_year'', d),
                      (''csrf_token'', c), (''letters_code'', l)]\<rparr>"
    by (auto simp: build_form_def token_value_def split: outcome.split_asm)
  with b(1) f(1,2,3) c l show ?thesis by blast
qed


section \<open>Release of the session (C2)\<close>

text \<open>When the handler created a page, closing that page is the last call it makes,
  on every path; and on no path does it close the browser context.\<close>

lemma page_closed_last:
  assumes "fst (snd (fetch_try w b r))"
  shows "last (trace (fetch_handler w b r)) = ClosePage"
  using assms by (simp add: trace_fetch_handler)

lemma context_never_closed: "CloseContext \<notin> set (trace (app w req))"
  by (simp add: app_def Let_def fetch_handler_no_close_context split: parse.split)

text \<open>
  C2. The claim: a request that creates a browsing session releases the whole of it on
  every exit path. The handler's \<^verbatim>\<open>finally\<close> closes the page and nothing else. The
  context that \<^verbatim>\<open>browser.newContext()\<close> opened is not closed on the successful path,
  nor on the path where token extraction fails (where the page is closed twice), nor
  on the error path taken when \<^verbatim>\<open>page.setUserAgent\<close> throws, nor when
  \<^verbatim>\<open>context.newPage()\<close> throws (where nothing is closed at all).
\<close>

theorem session_context_left_open:
  "trace (app world_ok (post_fetch (Some body_full))) =
     [NewContext, NewPage, SetUserAgent user_agent,
      Goto ''http://results.nu.ac.bd/honours/first_year_result.php'', EvaluateTokens,
      SubmitForm sample_submission, ClosePage]
   \<and> trace (app world_no_tokens (post_fetch (Some body_full))) =
     [NewContext, NewPage, SetUserAgent user_agent,
      Goto ''http://results.nu.ac.bd/honours/first_year_result.php'', EvaluateTokens,
      ClosePage, ClosePage]
   \<and> trace (app world_type_error (post_fetch (Some body_full))) =
     [NewContext, NewPage, SetUserAgent user_agent, ClosePage]
   \<and> trace (app world_no_page (post_fetch (Some body_full))) = [NewContext, NewPage]
   \<and> reply_status (reply (app world_no_page (post_fetch (Some body_full)))) = 500"
  by (simp add: app_post_fetch eval_defs status_send status_status)

section \<open>Cross-origin headers (C9)\<close>

text \<open>Every request that \<^verbatim>\<open>express.json()\<close> lets pass is answered with the three
  headers set, whichever route answers it, and an \<^verbatim>\<open>OPTIONS\<close> request among them is
  answered 200 without a body, whatever its path.\<close>

lemma cors_on_passed:
  assumes "parsed req = Passed b"
  shows "headers (reply_res (reply (app w req))) ''Access-Control-Allow-Origin'' = Some ''*''"
    and "headers (reply_res (reply (app w req))) ''Access-Control-Allow-Methods'' =
           Some ''POST, GET, OPTIONS''"
    and "headers (reply_res (reply (app w req))) ''Access-Control-Allow-Headers'' =
           Some ''Content-Type''"
  using assms
  by (simp_all add: app_def Let_def fetch_handler_headers headers_cors headers_send
      headers_status send_get_def)

lemma options_short_circuit:
  assumes "parsed req = Passed b" and "method req = ''OPTIONS''"
  shows "app w req = \<lparr>reply = Sent (status 200 (cors res0)), trace = [], rejected = None\<rparr>"
    and "statusCode (status 200 (cors res0)) = 200"
    and "content (status 200 (cors res0)) = None"
  using assms by (simp_all add: app_def Let_def status_def cors_def header_def res0_def)

text \<open>
  C9. The claim: every response carries the three cross-origin headers, and every
  \<^verbatim>\<open>OPTIONS\<close> request is answered 200 with an empty body. \<^verbatim>\<open>express.json()\<close> is
  registered before the middleware that sets the headers, so a request whose body it
  rejects (malformed JSON, say) never reaches that middleware: it is answered 400 by
  Express's final handler with none of the headers, an \<^verbatim>\<open>OPTIONS\<close> request included.
\<close>

theorem rejected_body_without_cors:
  "reply (app world_ok \<lparr>method = ''POST'', path = ''/fetch'', parsed = Rejected 400\<rparr>) =
     Final 400 res0
   \<and> reply (app world_ok \<lparr>method = ''OPTIONS'', path = ''/fetch'', parsed = Rejected 400\<rparr>) =
     Final 400 res0
   \<and> reply_status (Final 400 res0) = 400
   \<and> headers (reply_res (Final 400 res0)) ''Access-Control-Allow-Origin'' = None
   \<and> headers (reply_res (Final 400 res0)) ''Access-Control-Allow-Methods'' = None
   \<and> headers (reply_res (Final 400 res0)) ''Access-Control-Allow-Headers'' = None"
  by (simp add: app_def res0_def)

end
